theory Spec2Isabelle
  imports Main "HOL-Library.AList"
begin

section \<open>Python values\<close>

text \<open>
  The development embeds the class \<open>Dialog\<close> of \<open>src/dialog.py\<close>.

  A Python \<open>str\<close> is a sequence of Unicode code points, so a string value is a list of
  natural numbers; \<open>ustr\<close> turns an ASCII literal into such a list. Python \<open>bytes\<close> are
  lists of 8-bit characters. Attribute names and dictionary keys are only ever compared,
  never encoded, and are kept as plain strings.
\<close>

type_synonym pystr = "nat list"

type_synonym bytes = "char list"

definition ustr :: "string \<Rightarrow> pystr" where
  "ustr s = map of_char s"

datatype pyval =
    VNone
  | VBool bool
  | VInt int
  | VStr pystr
  | VList "pyval list"
  | VDict "(string \<times> pyval) list"
  | VObject string

text \<open>
  A value is data. \<open>VObject\<close> stands for an object of another class (a float, a
  \<open>PartyHistory\<close>); no value can be called.
\<close>

type_synonym pydict = "(string \<times> pyval) list"

text \<open>Truth value testing, as \<open>if x:\<close> and \<open>not x\<close> perform it.\<close>

fun truthy :: "pyval \<Rightarrow> bool" where
  "truthy VNone = False"
| "truthy (VBool b) = b"
| "truthy (VInt i) = (i \<noteq> 0)"
| "truthy (VStr s) = (s \<noteq> [])"
| "truthy (VList xs) = (xs \<noteq> [])"
| "truthy (VDict m) = (m \<noteq> [])"
| "truthy (VObject n) = True"

text \<open>
  The exceptions the code can raise. \<open>ValueError\<close> and \<open>PyException\<close> are the two
  \<open>raise\<close> statements of the file itself (\<open>raise ValueError(msg)\<close> and
  \<open>raise Exception(msg)\<close>); the others come out of the interpreter or of a library:
  \<open>DateutilError\<close> (anything raised inside \<open>dateutil\<close>, with the name of its class:
  \<open>ParserError\<close>, a subclass of ValueError, \<open>OverflowError\<close>, ...), \<open>IntLiteralError\<close>
  (\<open>int()\<close> on a bad literal, a ValueError), \<open>BinasciiError\<close> (base64 decoding),
  \<open>RequestError\<close> (anything raised inside \<open>requests\<close>).
\<close>

datatype error =
    ValueError pystr
  | PyException pystr
  | DateutilError string
  | IntLiteralError
  | AttributeError
  | TypeError
  | UnicodeEncodeError
  | UnicodeDecodeError
  | BinasciiError
  | RequestError string


section \<open>String operations\<close>

text \<open>\<open>s.split(sep)\<close> for a separator of one character; the result is never empty.\<close>

fun py_split :: "nat \<Rightarrow> pystr \<Rightarrow> pystr list" where
  "py_split sep [] = [[]]"
| "py_split sep (c # cs) =
     (if c = sep then [] # py_split sep cs
      else (case py_split sep cs of w # ws \<Rightarrow> (c # w) # ws | [] \<Rightarrow> [[c]]))"

definition ascii_lower :: "nat \<Rightarrow> nat" where
  "ascii_lower c = (if 65 \<le> c \<and> c \<le> 90 then c + 32 else c)"

text \<open>
  \<open>int\<close> to decimal text, as an f-string formats a status code.
\<close>

function dec_digits :: "nat \<Rightarrow> pystr" where
  "dec_digits n = (if n < 10 then [48 + n] else dec_digits (n div 10) @ [48 + n mod 10])"
  by pat_completeness auto
termination
  by (relation "measure id") auto

definition py_str_int :: "int \<Rightarrow> pystr" where
  "py_str_int i = (if i < 0 then 45 # dec_digits (nat (- i)) else dec_digits (nat i))"

text \<open>
  \<open>repr\<close> of a list of strings that hold no quote, backslash or control character (the
  only list the code formats is \<open>VALID_TYPES\<close>): each element in single quotes,
  separated by a comma and a space, in square brackets.
\<close>

fun join_comma :: "pystr list \<Rightarrow> pystr" where
  "join_comma [] = []"
| "join_comma [s] = s"
| "join_comma (s # t # ts) = s @ ustr '', '' @ join_comma (t # ts)"

definition repr_str_list :: "pystr list \<Rightarrow> pystr" where
  "repr_str_list xs = ustr ''['' @ join_comma (map (\<lambda>s. [39] @ s @ [39]) xs) @ ustr '']''"

section \<open>UTF-8 and base64\<close>

text \<open>
  \<open>str.encode()\<close> encodes to UTF-8 and raises UnicodeEncodeError on a lone surrogate
  (U+D800 to U+DFFF), which a Python string may hold; \<open>None\<close> is that failure.
\<close>

definition is_surrogate :: "nat \<Rightarrow> bool" where
  "is_surrogate c = (55296 \<le> c \<and> c \<le> 57343)"

definition utf8_encode_cp :: "nat \<Rightarrow> bytes option" where
  "utf8_encode_cp c =
     (if c < 128 then Some [char_of c]
      else if c < 2048 then Some [char_of (192 + c div 64), char_of (128 + c mod 64)]
      else if c < 65536 then
        (if is_surrogate c then None
         else Some [char_of (224 + c div 4096), char_of (128 + c div 64 mod 64),
                    char_of (128 + c mod 64)])
      else if c < 1114112 then
        Some [char_of (240 + c div 262144), char_of (128 + c div 4096 mod 64),
              char_of (128 + c div 64 mod 64), char_of (128 + c mod 64)]
      else None)"

fun utf8_encode :: "pystr \<Rightarrow> bytes option" where
  "utf8_encode [] = Some []"
| "utf8_encode (c # cs) =
     (case utf8_encode_cp c of
        None \<Rightarrow> None
      | Some bs \<Rightarrow> (case utf8_encode cs of None \<Rightarrow> None | Some rest \<Rightarrow> Some (bs @ rest)))"

text \<open>
  \<open>bytes.decode('utf-8')\<close>: strict decoding, which rejects stray continuation bytes,
  truncated and overlong sequences, surrogates and values beyond U+10FFFF; \<open>None\<close> is
  UnicodeDecodeError.
\<close>

definition is_cont :: "char \<Rightarrow> bool" where
  "is_cont b = (128 \<le> (of_char b :: nat) \<and> (of_char b :: nat) < 192)"

fun utf8_decode :: "bytes \<Rightarrow> pystr option" where
  "utf8_decode [] = Some []"
| "utf8_decode (b # bs) =
     (let n = (of_char b :: nat) in
      if n < 128 then map_option ((#) n) (utf8_decode bs)
      else if 194 \<le> n \<and> n < 224 then
        (case bs of
           b1 # r \<Rightarrow>
             if is_cont b1
             then map_option ((#) ((n - 192) * 64 + (of_char b1 - 128))) (utf8_decode r)
             else None
         | _ \<Rightarrow> None)
      else if 224 \<le> n \<and> n < 240 then
        (case bs of
           b1 # b2 # r \<Rightarrow>
             (let c = (n - 224) * 4096 + (of_char b1 - 128) * 64 + (of_char b2 - 128) in
              if is_cont b1 \<and> is_cont b2 \<and> 2048 \<le> c \<and> \<not> is_surrogate c
              then map_option ((#) c) (utf8_decode r)
              else None)
         | _ \<Rightarrow> None)
      else if 240 \<le> n \<and> n < 245 then
        (case bs of
           b1 # b2 # b3 # r \<Rightarrow>
             (let c = (n - 240) * 262144 + (of_char b1 - 128) * 4096
                      + (of_char b2 - 128) * 64 + (of_char b3 - 128) in
              if is_cont b1 \<and> is_cont b2 \<and> is_cont b3 \<and> 65536 \<le> c \<and> c < 1114112
              then map_option ((#) c) (utf8_decode r)
              else None)
         | _ \<Rightarrow> None)
      else None)"

text \<open>
  \<open>base64.urlsafe_b64encode\<close>: three bytes become four digits of the URL-safe alphabet,
  the last group padded with \<open>=\<close>.
\<close>

definition b64_alphabet :: string where
  "b64_alphabet = ''ABCDEFGHIJKLMNOPQRSTUVWXYZabcdefghijklmnopqrstuvwxyz0123456789-_''"

definition b64_digit :: "nat \<Rightarrow> char" where
  "b64_digit i = b64_alphabet ! i"

fun b64_groups :: "nat list \<Rightarrow> bytes" where
  "b64_groups (a # b # c # r) =
     [b64_digit (a div 4), b64_digit (a mod 4 * 16 + b div 16),
      b64_digit (b mod 16 * 4 + c div 64), b64_digit (c mod 64)] @ b64_groups r"
| "b64_groups [a, b] =
     [b64_digit (a div 4), b64_digit (a mod 4 * 16 + b div 16),
      b64_digit (b mod 16 * 4), CHR ''='']"
| "b64_groups [a] = [b64_digit (a div 4), b64_digit (a mod 4 * 16), CHR ''='', CHR ''='']"
| "b64_groups [] = []"

definition urlsafe_b64encode :: "bytes \<Rightarrow> bytes" where
  "urlsafe_b64encode bs = b64_groups (map of_char bs)"

section \<open>The environment\<close>

text \<open>
  Library functions the repository calls but does not contain are parameters of the
  model, gathered in one record: \<open>hashlib.sha256(b).digest()\<close>,
  \<open>base64.urlsafe_b64decode\<close> (\<open>None\<close> when it raises binascii.Error), \<open>str.lower()\<close> on
  a string that holds a character outside ASCII, \<open>dateutil.parser.parse(s).isoformat()\<close>
  (\<open>Inl\<close> with the name of the exception class when parsing raises) and \<open>int(s)\<close>
  (\<open>None\<close> when it raises). Every theorem holds for every environment.
\<close>

record pyenv =
  sha256 :: "bytes \<Rightarrow> bytes"
  urlsafe_b64decode :: "bytes \<Rightarrow> bytes option"
  unicode_lower :: "pystr \<Rightarrow> pystr"
  dateutil_parse :: "pystr \<Rightarrow> string + pystr"
  int_of_str :: "pystr \<Rightarrow> int option"

text \<open>What \<open>requests.head\<close> or \<open>requests.get\<close> returned, as far as the code reads it.\<close>

record response =
  status_code :: int
  content :: bytes
  content_type :: "pystr option"
  content_length :: "pystr option"

text \<open>\<open>str.lower()\<close>: on ASCII text it maps A-Z to a-z, character by character.\<close>

definition py_lower :: "pyenv \<Rightarrow> pystr \<Rightarrow> pystr" where
  "py_lower E s = (if list_all (\<lambda>c. c < 128) s then map ascii_lower s else unicode_lower E s)"

text \<open>\<open>v.encode()\<close> and \<open>b.decode()\<close> with their exceptions.\<close>

definition str_encode :: "pyval \<Rightarrow> error + bytes" where
  "str_encode v =
     (case v of
        VStr s \<Rightarrow> (case utf8_encode s of None \<Rightarrow> Inl UnicodeEncodeError | Some bs \<Rightarrow> Inr bs)
      | _ \<Rightarrow> Inl AttributeError)"

definition bytes_decode :: "bytes \<Rightarrow> error + pystr" where
  "bytes_decode bs = (case utf8_decode bs of None \<Rightarrow> Inl UnicodeDecodeError | Some s \<Rightarrow> Inr s)"

text \<open>\<open>base64.urlsafe_b64encode(hashlib.sha256(b).digest()).decode()\<close>\<close>

definition sign_bytes :: "pyenv \<Rightarrow> bytes \<Rightarrow> error + pystr" where
  "sign_bytes E bs = bytes_decode (urlsafe_b64encode (sha256 E bs))"

section \<open>The Dialog object\<close>

text \<open>
  The class sets, tests and deletes attributes by name (\<open>setattr\<close>, \<open>hasattr\<close>,
  \<open>delattr\<close>), so an instance is its attribute dictionary: a map from attribute names to
  values. A method mutates the instance in place and may raise after some assignments;
  its outcome holds the instance as the call left it in both cases.
\<close>

type_synonym dialog = "string \<rightharpoonup> pyval"

datatype outcome = Returned dialog | Raised error dialog

fun final_state :: "outcome \<Rightarrow> dialog" where
  "final_state (Returned d) = d"
| "final_state (Raised e d) = d"

definition hasattr :: "dialog \<Rightarrow> string \<Rightarrow> bool" where
  "hasattr d k = (d k \<noteq> None)"

definition VALID_TYPES :: "pystr list" where
  "VALID_TYPES = map ustr [''recording'', ''text'', ''transfer'', ''incomplete'', ''audio'', ''video'']"

definition audio_mimetypes :: "pystr list" where
  "audio_mimetypes = map ustr
     [''audio/x-wav'', ''audio/wav'', ''audio/wave'', ''audio/mpeg'', ''audio/mp3'',
      ''audio/ogg'', ''audio/webm'', ''audio/x-m4a'', ''audio/aac'']"

definition video_mimetypes :: "pystr list" where
  "video_mimetypes = map ustr
     [''video/x-mp4'', ''video/ogg'', ''video/mp4'', ''video/quicktime'', ''video/webm'',
      ''video/x-msvideo'', ''video/x-matroska'', ''video/mpeg'', ''video/x-flv'',
      ''video/3gpp'', ''video/x-m4v'']"

text \<open>
  A call \<open>self.m()\<close> looks \<open>m\<close> up on the instance first: an attribute of that name,
  which the keyword loops of lines 214-216 and 415-417 can store, hides the method, and
  calling its value raises TypeError. \<open>method_call d m r\<close> is the call of a method whose
  body gives \<open>r\<close>.
\<close>

definition method_call :: "dialog \<Rightarrow> string \<Rightarrow> (error + 'a) \<Rightarrow> error + 'a" where
  "method_call d m r = (if hasattr d m then Inl TypeError else r)"

text \<open>
  Lines 494-510, 544-588: the predicates, as the calls \<open>d.is_external_data()\<close>,
  \<open>d.is_inline_data()\<close>, \<open>d.is_audio()\<close> and \<open>d.is_video()\<close>, which is how the other methods
  use them. The mutating methods and \<open>is_external_data_changed\<close> further down are the
  functions of the class applied to the instance, \<open>Dialog.to_inline_data(d)\<close>; every call
  they make through \<open>self\<close> goes through the lookup.
\<close>

definition is_external_data :: "dialog \<Rightarrow> error + bool" where
  "is_external_data d = method_call d ''is_external_data'' (Inr (hasattr d ''url''))"

definition is_inline_data :: "dialog \<Rightarrow> error + bool" where
  "is_inline_data d =
     method_call d ''is_inline_data''
       (case is_external_data d of Inl e \<Rightarrow> Inl e | Inr b \<Rightarrow> Inr (\<not> b))"

definition is_audio :: "dialog \<Rightarrow> error + bool" where
  "is_audio d =
     method_call d ''is_audio''
       (Inr (case d ''mimetype'' of
               None \<Rightarrow> False
             | Some v \<Rightarrow> v \<in> set (map VStr audio_mimetypes)))"

definition is_video :: "dialog \<Rightarrow> error + bool" where
  "is_video d =
     method_call d ''is_video''
       (Inr (d ''type'' = Some (VStr (ustr ''video'')) \<or>
             (case d ''mimetype'' of
                None \<Rightarrow> False
              | Some v \<Rightarrow> v \<in> set (map VStr video_mimetypes))))"

text \<open>Line 635: \<open>self.is_video() or self.is_audio()\<close>; the second call is made when the
  first returns \<open>False\<close>.\<close>

definition is_media :: "dialog \<Rightarrow> error + bool" where
  "is_media d =
     (case is_video d of
        Inl e \<Rightarrow> Inl e
      | Inr v \<Rightarrow> if v then Inr True else is_audio d)"

section \<open>Construction\<close>

text \<open>
  The arguments of \<open>Dialog(...)\<close>. The parameters whose values the constructor inspects
  are typed as their annotations say (\<open>None\<close> for an argument that is not passed or is
  passed as Python's None). A datetime is given by the text its \<open>isoformat()\<close> returns.
  \<open>arg_other\<close> holds every other keyword argument by name: the remaining named
  parameters (\<open>parties\<close>, \<open>body\<close>, \<open>url\<close>, ...) and the extra ones that Python collects
  in \<open>kwargs\<close>.
\<close>

datatype start_arg = StartDatetime pystr | StartStr pystr

record init_args =
  arg_type :: pystr
  arg_start :: start_arg
  arg_mimetype :: "pystr option"
  arg_filename :: "pystr option"
  arg_disposition :: "pystr option"
  arg_meta :: "pydict option"
  arg_metadata :: "pydict option"
  arg_other :: "string \<rightharpoonup> pyval"

definition named_params :: "string list" where
  "named_params =
     [''type'', ''start'', ''parties'', ''originator'', ''mimetype'', ''filename'', ''body'',
      ''encoding'', ''url'', ''alg'', ''signature'', ''disposition'', ''party_history'',
      ''transferee'', ''transferor'', ''transfer_target'', ''original'', ''consultation'',
      ''target_dialog'', ''campaign'', ''interaction'', ''skill'', ''duration'', ''meta'',
      ''metadata'', ''transfer'', ''signaling'', ''resolution'', ''frame_rate'', ''codec'',
      ''bitrate'', ''thumbnail'']"

text \<open>Lines 187-189: the message of the ValueError for an unknown type.\<close>

definition invalid_type_message :: "pystr \<Rightarrow> pystr" where
  "invalid_type_message ty =
     ustr ''Invalid dialog type: '' @ ty @ ustr ''. Must be one of '' @ repr_str_list VALID_TYPES"

text \<open>Lines 191-195: the start time as ISO 8601 text.\<close>

definition convert_start :: "pyenv \<Rightarrow> start_arg \<Rightarrow> error + pystr" where
  "convert_start E st =
     (case st of
        StartDatetime t \<Rightarrow> Inr t
      | StartStr s \<Rightarrow>
          (case dateutil_parse E s of Inl n \<Rightarrow> Inl (DateutilError n) | Inr t \<Rightarrow> Inr t))"

text \<open>
  Lines 197-200: every named parameter that is not None becomes an attribute; \<open>start\<close>
  holds the converted value.
\<close>

definition set_named :: "init_args \<Rightarrow> pystr \<Rightarrow> dialog" where
  "set_named a t =
     (\<lambda>k. if k = ''type'' then Some (VStr (arg_type a))
          else if k = ''start'' then Some (VStr t)
          else if k = ''mimetype'' then map_option VStr (arg_mimetype a)
          else if k = ''filename'' then map_option VStr (arg_filename a)
          else if k = ''disposition'' then map_option VStr (arg_disposition a)
          else if k = ''meta'' then map_option VDict (arg_meta a)
          else if k = ''metadata'' then map_option VDict (arg_metadata a)
          else if k \<in> set named_params
            then (case arg_other a k of Some v \<Rightarrow> (if v = VNone then None else Some v) | None \<Rightarrow> None)
          else None)"

text \<open>\<open>x.copy()\<close>: dictionaries and lists have it.\<close>

fun py_copy :: "pyval \<Rightarrow> error + pyval" where
  "py_copy (VDict m) = Inr (VDict m)"
| "py_copy (VList xs) = Inr (VList xs)"
| "py_copy v = Inl AttributeError"

text \<open>Lines 202-211: when one of \<open>meta\<close> and \<open>metadata\<close> is missing it is made from the other.\<close>

definition copy_or_empty :: "pyval \<Rightarrow> error + pyval" where
  "copy_or_empty v = (if truthy v then py_copy v else Inr (VDict []))"

definition reconcile_meta :: "dialog \<Rightarrow> error + dialog" where
  "reconcile_meta d =
     (case (d ''metadata'', d ''meta'') of
        (None, Some m) \<Rightarrow>
          (case copy_or_empty m of Inl e \<Rightarrow> Inl e | Inr c \<Rightarrow> Inr (d(''metadata'' \<mapsto> c)))
      | (Some m, None) \<Rightarrow>
          (case copy_or_empty m of Inl e \<Rightarrow> Inl e | Inr c \<Rightarrow> Inr (d(''meta'' \<mapsto> c)))
      | (None, None) \<Rightarrow> Inr (d(''metadata'' \<mapsto> VDict [], ''meta'' \<mapsto> VDict []))
      | (Some m, Some m') \<Rightarrow> Inr d)"

text \<open>
  Lines 213-216: the extra keyword arguments. A keyword that names a parameter is bound
  to that parameter, so \<open>kwargs\<close> holds the other names only.
\<close>

definition set_kwargs :: "init_args \<Rightarrow> dialog \<Rightarrow> dialog" where
  "set_kwargs a d =
     (\<lambda>k. if k \<in> set named_params \<or> k = ''self'' then d k
          else (case arg_other a k of
                  Some v \<Rightarrow> (if v = VNone then d k else Some v)
                | None \<Rightarrow> d k))"

text \<open>Lines 222-250: the mimetype of a video dialog constructed without one.\<close>

definition init_video_mimetype :: "pyenv \<Rightarrow> dialog \<Rightarrow> error + pystr" where
  "init_video_mimetype E d =
     (case d ''filename'' of
        None \<Rightarrow> Inr (ustr ''video/mp4'')
      | Some fv \<Rightarrow>
          if truthy fv then
            (case fv of
               VStr f \<Rightarrow>
                 (let ext = py_lower E (last (py_split (of_char CHR ''.'') f)) in
                  if ext = ustr ''mp4'' then Inr (ustr ''video/mp4'')
                  else if ext = ustr ''mov'' then Inr (ustr ''video/quicktime'')
                  else if ext = ustr ''webm'' then Inr (ustr ''video/webm'')
                  else if ext = ustr ''avi'' then Inr (ustr ''video/x-msvideo'')
                  else if ext = ustr ''mkv'' then Inr (ustr ''video/x-matroska'')
                  else if ext \<in> set [ustr ''mpg'', ustr ''mpeg''] then Inr (ustr ''video/mpeg'')
                  else if ext = ustr ''flv'' then Inr (ustr ''video/x-flv'')
                  else if ext = ustr ''3gp'' then Inr (ustr ''video/3gpp'')
                  else if ext = ustr ''m4v'' then Inr (ustr ''video/x-m4v'')
                  else Inr (ustr ''video/mp4''))
             | _ \<Rightarrow> Inl AttributeError)
          else Inr (ustr ''video/mp4''))"

text \<open>Line 220: the message, with its single quotes (code point 39).\<close>

definition disposition_message :: pystr where
  "disposition_message =
     ustr ''Dialog type '' @ [39] @ ustr ''incomplete'' @ [39] @ ustr '' requires a disposition''"

definition Dialog_init :: "pyenv \<Rightarrow> init_args \<Rightarrow> error + dialog" where
  "Dialog_init E a =
     (if arg_type a \<notin> set VALID_TYPES then Inl (ValueError (invalid_type_message (arg_type a)))
      else
        (case convert_start E (arg_start a) of
           Inl e \<Rightarrow> Inl e
         | Inr t \<Rightarrow>
             (case reconcile_meta (set_named a t) of
                Inl e \<Rightarrow> Inl e
              | Inr d1 \<Rightarrow>
                  (let d2 = set_kwargs a d1 in
                   if arg_type a = ustr ''incomplete'' \<and> \<not> hasattr d2 ''disposition''
                   then Inl (ValueError disposition_message)
                   else if arg_type a = ustr ''video'' \<and> \<not> hasattr d2 ''mimetype''
                   then (case init_video_mimetype E d2 of
                           Inl e \<Rightarrow> Inl e
                         | Inr mt \<Rightarrow> Inr (d2(''mimetype'' \<mapsto> VStr mt)))
                   else Inr d2))))"

section \<open>Attaching content\<close>

text \<open>
  \<open>url.split("?")[0].split("/")[-1]\<close> (lines 307-308 and 379-380). A split is never
  empty (lemma \<open>py_split_nonempty\<close>), so \<open>hd\<close> and \<open>last\<close> read an element of it.
\<close>

definition url_basename :: "pystr \<Rightarrow> pystr" where
  "url_basename url = last (py_split (of_char CHR ''/'') (hd (py_split (of_char CHR ''?'') url)))"

definition header_value :: "pystr option \<Rightarrow> pyval" where
  "header_value h = (case h of None \<Rightarrow> VNone | Some s \<Rightarrow> VStr s)"

text \<open>
  Lines 275-322. \<open>resp\<close> is what \<open>requests.head(url, allow_redirects=True)\<close> did: it
  raised (\<open>Inl\<close>) or returned a response.
\<close>

definition add_external_data ::
  "pyenv \<Rightarrow> string + response \<Rightarrow> pystr \<Rightarrow> pyval \<Rightarrow> pyval \<Rightarrow> dialog \<Rightarrow> outcome" where
  "add_external_data E resp url filename mimetype d =
     (let d0 = d(''url'' \<mapsto> VStr url) in
      case resp of
        Inl e \<Rightarrow> Raised (RequestError e) d0
      | Inr r \<Rightarrow>
          if status_code r = 200 then
            (let d1 = d0(''mimetype'' \<mapsto> (if truthy mimetype then mimetype
                                             else header_value (content_type r)));
                 d2 = d1(''filename'' \<mapsto> (if truthy filename then filename
                                             else VStr (url_basename url)));
                 d3 = d2(''alg'' \<mapsto> VStr (ustr ''external-reference''),
                         ''encoding'' \<mapsto> VStr (ustr ''none''))
             in case is_video d3 of
                  Inl e \<Rightarrow> Raised e d3
                | Inr v \<Rightarrow>
                    if v then
                      (case content_length r of
                         None \<Rightarrow> Returned d3
                       | Some cl \<Rightarrow>
                           if cl \<noteq> [] then
                             (let d4 = (if \<not> hasattr d3 ''metadata''
                                        then d3(''metadata'' \<mapsto> VDict []) else d3)
                              in case int_of_str E cl of
                                   None \<Rightarrow> Raised IntLiteralError d4
                                 | Some n \<Rightarrow>
                                     (case d4 ''metadata'' of
                                        Some (VDict m) \<Rightarrow>
                                          Returned (d4(''metadata'' \<mapsto>
                                            VDict (AList.update ''content_length'' (VInt n) m)))
                                      | _ \<Rightarrow> Raised TypeError d4))
                           else Returned d3)
                    else Returned d3)
          else Raised (PyException (ustr ''Failed to fetch external data metadata: ''
                                     @ py_str_int (status_code r))) d0)"

text \<open>Lines 324-344.\<close>

definition add_inline_data :: "pyenv \<Rightarrow> pystr \<Rightarrow> pyval \<Rightarrow> pyval \<Rightarrow> dialog \<Rightarrow> outcome" where
  "add_inline_data E body filename mimetype d =
     (let d1 = d(''body'' \<mapsto> VStr body, ''mimetype'' \<mapsto> mimetype, ''filename'' \<mapsto> filename,
                 ''alg'' \<mapsto> VStr (ustr ''sha256''), ''encoding'' \<mapsto> VStr (ustr ''base64url''))
      in case d1 ''body'' of
           None \<Rightarrow> Raised AttributeError d1
         | Some b \<Rightarrow>
             (case str_encode b of
                Inl e \<Rightarrow> Raised e d1
              | Inr bs \<Rightarrow>
                  (case sign_bytes E bs of
                     Inl e \<Rightarrow> Raised e d1
                   | Inr sig \<Rightarrow> Returned (d1(''signature'' \<mapsto> VStr sig)))))"

section \<open>Video data and metadata\<close>












section \<open>Integrity check and conversion to inline data\<close>

text \<open>
  Lines 609-610, the body of the \<open>try\<close>: decode the signature, hash the body, compare.
  Any exception is a value \<open>Inl\<close>.
\<close>

definition check_signature :: "pyenv \<Rightarrow> dialog \<Rightarrow> error + bool" where
  "check_signature E d =
     (case d ''signature'' of
        None \<Rightarrow> Inl AttributeError
      | Some sv \<Rightarrow>
          (case str_encode sv of
             Inl e \<Rightarrow> Inl e
           | Inr sb \<Rightarrow>
               (case urlsafe_b64decode E sb of
                  None \<Rightarrow> Inl BinasciiError
                | Some body_hash \<Rightarrow>
                    (case d ''body'' of
                       None \<Rightarrow> Inl AttributeError
                     | Some bv \<Rightarrow>
                         (case str_encode bv of
                            Inl e \<Rightarrow> Inl e
                          | Inr bb \<Rightarrow> Inr (sha256 E bb \<noteq> body_hash))))))"

text \<open>
  Lines 598-613: \<open>except Exception\<close> turns every failure of the \<open>try\<close> into \<open>True\<close>. The
  call of line 606 stands before the \<open>try\<close>; what it raises propagates.
\<close>

definition is_external_data_changed :: "pyenv \<Rightarrow> dialog \<Rightarrow> error + bool" where
  "is_external_data_changed E d =
     (case is_external_data d of
        Inl e \<Rightarrow> Inl e
      | Inr ext \<Rightarrow>
          if \<not> ext then Inr False
          else (case check_signature E d of Inl e \<Rightarrow> Inr True | Inr changed \<Rightarrow> Inr changed))"

text \<open>\<open>base64.urlsafe_b64encode(raw).decode()\<close>\<close>

definition b64_text :: "bytes \<Rightarrow> error + pystr" where
  "b64_text raw = bytes_decode (urlsafe_b64encode raw)"

text \<open>Lines 634-647: the body and its encoding.\<close>

definition store_body :: "bytes \<Rightarrow> dialog \<Rightarrow> error + dialog" where
  "store_body raw d =
     (case is_media d of
        Inl e \<Rightarrow> Inl e
      | Inr media \<Rightarrow>
          if media then
            (case b64_text raw of
               Inl e \<Rightarrow> Inl e
             | Inr t \<Rightarrow> Inr (d(''body'' \<mapsto> VStr t, ''encoding'' \<mapsto> VStr (ustr ''base64url''))))
          else
            (case utf8_decode raw of
               Some s \<Rightarrow> Inr (d(''body'' \<mapsto> VStr s, ''encoding'' \<mapsto> VStr (ustr ''none'')))
             | None \<Rightarrow>
                 (case b64_text raw of
                    Inl e \<Rightarrow> Inl e
                  | Inr t \<Rightarrow>
                      Inr (d(''body'' \<mapsto> VStr t, ''encoding'' \<mapsto> VStr (ustr ''base64url''))))))"

text \<open>Lines 649-651: the mimetype is taken from the response when the dialog has none.\<close>

definition backfill_mimetype :: "response \<Rightarrow> dialog \<Rightarrow> dialog" where
  "backfill_mimetype r d =
     (case d ''mimetype'' of
        None \<Rightarrow> d(''mimetype'' \<mapsto> header_value (content_type r))
      | Some v \<Rightarrow> if \<not> truthy v then d(''mimetype'' \<mapsto> header_value (content_type r)) else d)"

text \<open>Lines 661-663: the filename is the last segment of the URL when the dialog has none.\<close>

definition backfill_filename :: "dialog \<Rightarrow> error + dialog" where
  "backfill_filename d =
     (if \<not> hasattr d ''filename'' then
        (case d ''url'' of
           Some (VStr u) \<Rightarrow> Inr (d(''filename'' \<mapsto> VStr (last (py_split (of_char CHR ''/'') u))))
         | _ \<Rightarrow> Inl AttributeError)
      else Inr d)"

text \<open>Lines 668-672: the last statement calls \<open>self.is_video()\<close> and does nothing else.\<close>

definition final_video_check :: "dialog \<Rightarrow> outcome" where
  "final_video_check d = (case is_video d of Inl e \<Rightarrow> Raised e d | Inr v \<Rightarrow> Returned d)"

text \<open>
  Lines 617-672. \<open>resp\<close> is what \<open>requests.get(self.url)\<close> did: it raised (\<open>Inl\<close>) or
  returned a response.
\<close>

definition to_inline_data :: "pyenv \<Rightarrow> string + response \<Rightarrow> dialog \<Rightarrow> outcome" where
  "to_inline_data E resp d =
     (case is_external_data d of
        Inl e \<Rightarrow> Raised e d
      | Inr ext \<Rightarrow>
          if \<not> ext then Returned d
          else
            (case resp of
               Inl e \<Rightarrow> Raised (RequestError e) d
             | Inr r \<Rightarrow>
                 if status_code r = 200 then
                   (case store_body (content r) d of
                      Inl e \<Rightarrow> Raised e d
                    | Inr d1 \<Rightarrow>
                        (let d2 = backfill_mimetype r d1;
                             d3 = d2(''alg'' \<mapsto> VStr (ustr ''sha256''))
                         in case sign_bytes E (content r) of
                              Inl e \<Rightarrow> Raised e d3
                            | Inr sig \<Rightarrow>
                                (let d4 = d3(''signature'' \<mapsto> VStr sig)
                                 in case backfill_filename d4 of
                                      Inl e \<Rightarrow> Raised e d4
                                    | Inr d5 \<Rightarrow> final_video_check (d5(''url'' := None)))))
                 else Raised (PyException (ustr ''Failed to fetch external data: ''
                                            @ py_str_int (status_code r))) d))"

section \<open>Notions of the specification\<close>

text \<open>
  The signature the specification asks for: the URL-safe base64 text of the SHA-256
  digest of the given bytes.
\<close>

definition signature_of :: "pyenv \<Rightarrow> bytes \<Rightarrow> pystr" where
  "signature_of E bs = map of_char (urlsafe_b64encode (sha256 E bs))"

text \<open>
  The state of a call of \<open>to_inline_data\<close> after line 659, when the signature is stored:
  \<open>d1\<close> is the dialog with its new body and encoding.
\<close>

definition after_signature :: "pyenv \<Rightarrow> response \<Rightarrow> dialog \<Rightarrow> dialog" where
  "after_signature E r d1 =
     (backfill_mimetype r d1)(''alg'' \<mapsto> VStr (ustr ''sha256''),
        ''signature'' \<mapsto> VStr (signature_of E (content r)))"

text \<open>
  Recomputing the signature over the stored body (its UTF-8 bytes) gives the stored
  signature.
\<close>

definition stored_signature_verifies :: "pyenv \<Rightarrow> dialog \<Rightarrow> bool" where
  "stored_signature_verifies E d =
     (case (d ''body'', d ''signature'') of
        (Some (VStr b), Some (VStr sig)) \<Rightarrow>
          (case utf8_encode b of None \<Rightarrow> False | Some bs \<Rightarrow> signature_of E bs = sig)
      | _ \<Rightarrow> False)"

text \<open>
  Invariant I5: \<open>meta\<close> and \<open>metadata\<close> are both dictionaries and are equal as key/value
  maps (Python's \<open>==\<close> on dictionaries, which ignores the order of the items).
\<close>

definition dict_equal :: "pydict \<Rightarrow> pydict \<Rightarrow> bool" where
  "dict_equal m m' = list_all (\<lambda>k. map_of m k = map_of m' k) (map fst m @ map fst m')"

definition meta_mirrored :: "dialog \<Rightarrow> bool" where
  "meta_mirrored d =
     (case (d ''meta'', d ''metadata'') of
        (Some (VDict m), Some (VDict m')) \<Rightarrow> dict_equal m m'
      | _ \<Rightarrow> False)"

text \<open>A success status in the sense of HTTP: 200 to 299.\<close>

definition is_2xx :: "int \<Rightarrow> bool" where
  "is_2xx code = (200 \<le> code \<and> code < 300)"

text \<open>The maps \<open>meta\<close> and \<open>metadata\<close> after lines 202-211, from the arguments.\<close>

definition meta_after_init :: "init_args \<Rightarrow> pydict" where
  "meta_after_init a =
     (case arg_meta a of
        Some m \<Rightarrow> m
      | None \<Rightarrow> (case arg_metadata a of Some m' \<Rightarrow> m' | None \<Rightarrow> []))"

definition metadata_after_init :: "init_args \<Rightarrow> pydict" where
  "metadata_after_init a =
     (case arg_metadata a of
        Some m' \<Rightarrow> m'
      | None \<Rightarrow> (case arg_meta a of Some m \<Rightarrow> m | None \<Rightarrow> []))"

section \<open>Example inputs\<close>

text \<open>
  An environment for evaluating the model on concrete inputs. Each function is given by
  what the library returns on the arguments the examples pass: the SHA-256 digests of
  \<open>hello\<close>, of \<open>tampered\<close>, of \<open>RIFF\<close> and of the two bytes FF FE, the decoding of the
  URL-safe base64 text of the first, the timestamp dateutil makes of
  \<open>2024-01-01T00:00:00Z\<close>, the integer \<open>1024\<close>. dateutil raises ParserError on
  \<open>not a date\<close> and OverflowError on \<open>99999999999999999999\<close>, and \<open>abc\<close> is not valid
  base64 (its length is not a multiple of four). No example calls a function on another
  argument.
\<close>

definition hello_digest :: bytes where
  "hello_digest = map char_of
     [44, 242, 77, 186, 95, 176, 163, 14, 38, 232, 59, 42, 197, 185, 226, 158,
      27, 22, 30, 92, 31, 167, 66, 94, 115, 4, 51, 98, 147, 139, 152, 36 :: nat]"

definition tampered_digest :: bytes where
  "tampered_digest = map char_of
     [209, 33, 190, 49, 3, 0, 123, 65, 237, 249, 111, 130, 98, 146, 95, 140,
      125, 97, 137, 74, 254, 154, 4, 24, 67, 182, 49, 246, 148, 69, 188, 87 :: nat]"

definition riff_digest :: bytes where
  "riff_digest = map char_of
     [164, 15, 243, 213, 144, 15, 183, 105, 139, 140, 134, 80, 65, 52, 124, 180,
      158, 204, 237, 200, 249, 57, 69, 248, 150, 41, 173, 16, 74, 174, 204, 228 :: nat]"

definition bom_digest :: bytes where
  "bom_digest = map char_of
     [179, 213, 16, 239, 4, 39, 92, 168, 230, 152, 229, 179, 203, 176, 236, 227,
      148, 158, 249, 37, 47, 12, 220, 131, 158, 158, 227, 71, 64, 154, 34, 9 :: nat]"

definition example_env :: pyenv where
  "example_env =
     \<lparr> sha256 = (\<lambda>bs. if bs = ''hello'' then hello_digest
                      else if bs = ''tampered'' then tampered_digest
                      else if bs = ''RIFF'' then riff_digest
                      else if bs = [CHR 0xFF, CHR 0xFE] then bom_digest else []),
       urlsafe_b64decode =
         (\<lambda>bs. if bs = ''LPJNul-wow4m6DsqxbninhsWHlwfp0JecwQzYpOLmCQ='' then Some hello_digest
               else None),
       unicode_lower = (\<lambda>s. s),
       dateutil_parse =
         (\<lambda>s. if s = ustr ''2024-01-01T00:00:00Z'' then Inr (ustr ''2024-01-01T00:00:00+00:00'')
              else if s = ustr ''99999999999999999999'' then Inl ''OverflowError''
              else Inl ''ParserError''),
       int_of_str = (\<lambda>s. if s = ustr ''1024'' then Some 1024 else None) \<rparr>"

definition example_external :: dialog where
  "example_external =
     [''type'' \<mapsto> VStr (ustr ''text''),
      ''start'' \<mapsto> VStr (ustr ''2024-01-01T00:00:00+00:00''),
      ''parties'' \<mapsto> VList [VInt 0, VInt 1],
      ''meta'' \<mapsto> VDict [],
      ''metadata'' \<mapsto> VDict [],
      ''url'' \<mapsto> VStr (ustr ''https://example.com/notes/a.txt'')]"

definition example_inline :: dialog where
  "example_inline =
     [''type'' \<mapsto> VStr (ustr ''text''),
      ''start'' \<mapsto> VStr (ustr ''2024-01-01T00:00:00+00:00''),
      ''parties'' \<mapsto> VList [VInt 0, VInt 1],
      ''meta'' \<mapsto> VDict [],
      ''metadata'' \<mapsto> VDict [],
      ''body'' \<mapsto> VStr (ustr ''tampered''),
      ''encoding'' \<mapsto> VStr (ustr ''base64url''),
      ''alg'' \<mapsto> VStr (ustr ''sha256''),
      ''signature'' \<mapsto> VStr (ustr ''LPJNul-wow4m6DsqxbninhsWHlwfp0JecwQzYpOLmCQ='')]"

definition response_ok :: response where
  "response_ok =
     \<lparr> status_code = 200, content = ''hello'', content_type = Some (ustr ''text/plain''),
       content_length = Some (ustr ''5'') \<rparr>"

definition response_no_content :: response where
  "response_no_content =
     \<lparr> status_code = 204, content = [], content_type = None, content_length = None \<rparr>"

definition response_not_found :: response where
  "response_not_found =
     \<lparr> status_code = 404, content = [], content_type = None, content_length = None \<rparr>"





definition response_video :: response where
  "response_video =
     \<lparr> status_code = 200, content = [], content_type = Some (ustr ''application/octet-stream''),
       content_length = Some (ustr ''1024'') \<rparr>"

definition example_video :: dialog where
  "example_video =
     [''type'' \<mapsto> VStr (ustr ''video''),
      ''start'' \<mapsto> VStr (ustr ''2024-01-01T00:00:00+00:00''),
      ''parties'' \<mapsto> VList [VInt 0],
      ''mimetype'' \<mapsto> VStr (ustr ''video/mp4''),
      ''meta'' \<mapsto> VDict [],
      ''metadata'' \<mapsto> VDict []]"

definition example_audio_external :: dialog where
  "example_audio_external =
     [''type'' \<mapsto> VStr (ustr ''recording''),
      ''start'' \<mapsto> VStr (ustr ''2024-01-01T00:00:00+00:00''),
      ''parties'' \<mapsto> VList [VInt 0, VInt 1],
      ''mimetype'' \<mapsto> VStr (ustr ''audio/wav''),
      ''meta'' \<mapsto> VDict [],
      ''metadata'' \<mapsto> VDict [],
      ''url'' \<mapsto> VStr (ustr ''https://example.com/calls/a.wav'')]"

definition response_riff :: response where
  "response_riff =
     \<lparr> status_code = 200, content = ''RIFF'', content_type = Some (ustr ''audio/wav''),
       content_length = Some (ustr ''4'') \<rparr>"

definition response_undecodable :: response where
  "response_undecodable =
     \<lparr> status_code = 200, content = [CHR 0xFF, CHR 0xFE], content_type = None,
       content_length = None \<rparr>"

text \<open>
  \<open>Dialog("text", "2024-01-01T00:00:00Z", [0, 1], is_external_data=False)\<close>: the extra
  keyword becomes an attribute that hides the method of the same name.
\<close>

definition hidden_method_args :: init_args where
  "hidden_method_args =
     \<lparr> arg_type = ustr ''text'',
       arg_start = StartStr (ustr ''2024-01-01T00:00:00Z''),
       arg_mimetype = None, arg_filename = None, arg_disposition = None,
       arg_meta = None, arg_metadata = None,
       arg_other = [''parties'' \<mapsto> VList [VInt 0, VInt 1],
                    ''is_external_data'' \<mapsto> VBool False] \<rparr>"

section \<open>Auxiliary lemmas\<close>

lemma py_split_nonempty: "py_split sep s \<noteq> []"
  by (induction s) (auto split: list.splits)

lemma utf8_decode_ascii:
  "\<forall>b\<in>set bs. (of_char b :: nat) < 128 \<Longrightarrow> utf8_decode bs = Some (map of_char bs)"
  by (induction bs) simp_all

lemma b64_alphabet_ascii: "\<forall>c\<in>set b64_alphabet. (of_char c :: nat) < 128"
  by (simp add: b64_alphabet_def)

lemma b64_digit_ascii: "i < 64 \<Longrightarrow> (of_char (b64_digit i) :: nat) < 128"
proof -
  assume i: "i < 64"
  have "length b64_alphabet = 64"
    by (simp add: b64_alphabet_def)
  with i have "b64_alphabet ! i \<in> set b64_alphabet"
    by (intro nth_mem) simp
  then show ?thesis
    using b64_alphabet_ascii by (simp add: b64_digit_def)
qed

lemma b64_groups_ascii:
  "\<forall>a\<in>set xs. a < 256 \<Longrightarrow> \<forall>c\<in>set (b64_groups xs). (of_char c :: nat) < 128"
proof (induction xs rule: b64_groups.induct)
  case (1 a b c r)
  have "a div 4 < 64" "a mod 4 * 16 + b div 16 < 64" "b mod 16 * 4 + c div 64 < 64" "c mod 64 < 64"
    using 1(2) by auto
  then show ?case using 1 by (simp add: b64_digit_ascii)
next
  case (2 a b)
  have "a div 4 < 64" "a mod 4 * 16 + b div 16 < 64" "b mod 16 * 4 < 64"
    using 2 by auto
  then show ?case by (simp add: b64_digit_ascii)
next
  case (3 a)
  have "a div 4 < 64" "a mod 4 * 16 < 64"
    using 3 by auto
  then show ?case by (simp add: b64_digit_ascii)
next
  case 4
  then show ?case by simp
qed

lemma urlsafe_b64encode_ascii: "\<forall>c\<in>set (urlsafe_b64encode bs). (of_char c :: nat) < 128"
  unfolding urlsafe_b64encode_def by (rule b64_groups_ascii) simp

text \<open>Decoding base64 text never fails: the two \<open>.decode()\<close> calls on it cannot raise.\<close>

lemma b64_text_eq: "b64_text raw = Inr (map of_char (urlsafe_b64encode raw))"
  by (simp add: b64_text_def bytes_decode_def utf8_decode_ascii [OF urlsafe_b64encode_ascii])

lemma sign_bytes_eq: "sign_bytes E bs = Inr (signature_of E bs)"
  by (simp add: sign_bytes_def signature_of_def bytes_decode_def
      utf8_decode_ascii [OF urlsafe_b64encode_ascii])



section \<open>Inline attachment (C1)\<close>

text \<open>
  C1, as amended. For every body that has a UTF-8 encoding and every filename and
  mimetype, \<open>add_inline_data\<close> returns and leaves \<open>alg\<close> at \<open>sha256\<close>, \<open>encoding\<close> at
  \<open>base64url\<close>, \<open>body\<close>, \<open>filename\<close> and \<open>mimetype\<close> at the given values, and \<open>signature\<close>
  at the URL-safe base64 text of the SHA-256 digest of the UTF-8 bytes of the body;
  recomputing the signature over the stored body gives the stored signature, and no
  other attribute changes.
\<close>

theorem add_inline_data_signs:
  assumes enc: "utf8_encode body = Some bs"
  shows "\<exists>d'. add_inline_data E body filename mimetype d = Returned d'
           \<and> d' ''alg'' = Some (VStr (ustr ''sha256''))
           \<and> d' ''encoding'' = Some (VStr (ustr ''base64url''))
           \<and> d' ''body'' = Some (VStr body)
           \<and> d' ''filename'' = Some filename
           \<and> d' ''mimetype'' = Some mimetype
           \<and> d' ''signature'' = Some (VStr (signature_of E bs))
           \<and> stored_signature_verifies E d'
           \<and> (\<forall>k. k \<notin> set [''body'', ''mimetype'', ''filename'', ''alg'', ''encoding'', ''signature'']
                  \<longrightarrow> d' k = d k)"
  using enc
  by (simp add: add_inline_data_def str_encode_def sign_bytes_eq stored_signature_verifies_def)

text \<open>
  The scenario of the specification: attaching \<open>hello\<close> stores the base64 text of
  SHA-256(\<open>hello\<close>).
\<close>

theorem add_inline_data_signs_witness:
  "utf8_encode (ustr ''hello'') = Some ''hello''
   \<and> (\<exists>d'. add_inline_data example_env (ustr ''hello'') (VStr (ustr ''a.txt''))
              (VStr (ustr ''text/plain'')) example_inline = Returned d'
          \<and> d' ''body'' = Some (VStr (ustr ''hello''))
          \<and> d' ''signature'' = Some (VStr (ustr ''LPJNul-wow4m6DsqxbninhsWHlwfp0JecwQzYpOLmCQ=''))
          \<and> stored_signature_verifies example_env d')"
proof -
  have enc: "utf8_encode (ustr ''hello'') = Some ''hello''"
    by (simp add: ustr_def utf8_encode_cp_def char_of_eq_iff)
  have sig: "signature_of example_env ''hello'' = ustr ''LPJNul-wow4m6DsqxbninhsWHlwfp0JecwQzYpOLmCQ=''"
    by (simp add: signature_of_def example_env_def hello_digest_def urlsafe_b64encode_def
        b64_digit_def b64_alphabet_def ustr_def)
  from add_inline_data_signs [OF enc, of example_env "VStr (ustr ''a.txt'')"
      "VStr (ustr ''text/plain'')" example_inline]
  show ?thesis
    using enc sig by auto
qed

text \<open>
  C1 as stated, for every string body, fails: a Python string may hold a lone surrogate
  such as U+D800, which has no UTF-8 encoding. \<open>self.body.encode()\<close> then raises
  UnicodeEncodeError after five attributes are assigned, and no signature is stored.
\<close>

theorem add_inline_data_surrogate_counterexample:
  "add_inline_data example_env [55296] (VStr (ustr ''f.txt'')) (VStr (ustr ''text/plain'')) Map.empty
     = Raised UnicodeEncodeError
         [''body'' \<mapsto> VStr [55296], ''mimetype'' \<mapsto> VStr (ustr ''text/plain''),
          ''filename'' \<mapsto> VStr (ustr ''f.txt''), ''alg'' \<mapsto> VStr (ustr ''sha256''),
          ''encoding'' \<mapsto> VStr (ustr ''base64url'')]"
  by (simp add: add_inline_data_def str_encode_def utf8_encode_cp_def is_surrogate_def)

section \<open>Conversion to inline data (C2, C6, C7)\<close>

lemma is_external_data_True:
  "is_external_data d = Inr True \<longleftrightarrow> \<not> hasattr d ''is_external_data'' \<and> hasattr d ''url''"
  by (simp add: is_external_data_def method_call_def)

lemma is_external_data_False:
  "is_external_data d = Inr False \<longleftrightarrow> \<not> hasattr d ''is_external_data'' \<and> \<not> hasattr d ''url''"
  by (simp add: is_external_data_def method_call_def)

lemma is_inline_data_True: "is_inline_data d = Inr True \<Longrightarrow> is_external_data d = Inr False"
  by (cases "is_external_data d") (auto simp: is_inline_data_def method_call_def split: if_splits)

lemma is_video_error: "is_video d = Inl e \<Longrightarrow> e = TypeError"
  by (auto simp: is_video_def method_call_def split: if_splits)

lemma is_video_hidden: "(\<exists>v. is_video d = Inr v) \<longleftrightarrow> \<not> hasattr d ''is_video''"
  by (simp add: is_video_def method_call_def)

lemma is_audio_error: "is_audio d = Inl e \<Longrightarrow> e = TypeError"
  by (auto simp: is_audio_def method_call_def split: if_splits)

lemma is_media_error: "is_media d = Inl e \<Longrightarrow> e = TypeError"
  by (cases "is_video d") (auto simp: is_media_def dest: is_video_error is_audio_error split: if_splits)

lemma is_media_video: "is_media d = Inr m \<Longrightarrow> \<exists>v. is_video d = Inr v"
  by (cases "is_video d") (simp_all add: is_media_def)

lemma is_media_visible:
  "\<not> hasattr d ''is_video'' \<Longrightarrow> \<not> hasattr d ''is_audio'' \<Longrightarrow> \<exists>m. is_media d = Inr m"
  by (auto simp: is_media_def is_video_def is_audio_def method_call_def)

lemma is_video_cong_hidden:
  "d' ''is_video'' = d ''is_video'' \<Longrightarrow> is_video d = Inr v \<Longrightarrow> \<exists>v'. is_video d' = Inr v'"
  by (auto simp: is_video_def method_call_def hasattr_def split: if_splits)

lemma store_body_error: "store_body raw d = Inl e \<Longrightarrow> e = TypeError \<and> is_media d = Inl e"
  by (cases "is_media d")
     (auto simp: store_body_def b64_text_eq dest: is_media_error split: if_splits option.splits)

lemma store_body_total: "is_media d = Inr m \<Longrightarrow> \<exists>d'. store_body raw d = Inr d'"
  by (simp add: store_body_def b64_text_eq split: option.splits)

lemma store_body_cases:
  "store_body raw d = Inr d' \<Longrightarrow>
     (\<forall>k. k \<noteq> ''body'' \<and> k \<noteq> ''encoding'' \<longrightarrow> d' k = d k)
   \<and> (\<exists>m. is_media d = Inr m
        \<and> (if m
            then d' ''body'' = Some (VStr (map of_char (urlsafe_b64encode raw)))
               \<and> d' ''encoding'' = Some (VStr (ustr ''base64url''))
            else (case utf8_decode raw of
                    Some s \<Rightarrow> d' ''body'' = Some (VStr s)
                             \<and> d' ''encoding'' = Some (VStr (ustr ''none''))
                  | None \<Rightarrow> d' ''body'' = Some (VStr (map of_char (urlsafe_b64encode raw)))
                           \<and> d' ''encoding'' = Some (VStr (ustr ''base64url'')))))"
  by (cases "is_media d")
     (auto simp: store_body_def b64_text_eq split: if_splits option.splits)

lemma backfill_mimetype_other: "k \<noteq> ''mimetype'' \<Longrightarrow> backfill_mimetype r d k = d k"
  by (simp add: backfill_mimetype_def split: option.splits)

lemma backfill_filename_other:
  "backfill_filename d = Inr d' \<Longrightarrow> k \<noteq> ''filename'' \<Longrightarrow> d' k = d k"
  by (auto simp: backfill_filename_def split: if_splits option.splits pyval.splits)

lemma backfill_filename_error: "backfill_filename d = Inl e \<Longrightarrow> e = AttributeError"
  by (auto simp: backfill_filename_def split: if_splits option.splits pyval.splits)

lemma backfill_filename_total:
  "hasattr d ''filename'' \<or> (\<exists>u. d ''url'' = Some (VStr u)) \<Longrightarrow> \<exists>d'. backfill_filename d = Inr d'"
  by (auto simp: backfill_filename_def)

lemma final_video_check_cases:
  "final_video_check d = Returned d \<or> final_video_check d = Raised TypeError d"
  by (cases "is_video d") (auto simp: final_video_check_def dest: is_video_error)

lemma final_video_check_visible: "\<not> hasattr d ''is_video'' \<Longrightarrow> final_video_check d = Returned d"
  by (simp add: final_video_check_def is_video_def method_call_def)

text \<open>
  A call on an external dialog whose GET request returned status 200, step by step.
\<close>

lemma to_inline_data_200:
  assumes ext: "is_external_data d = Inr True"
    and st: "status_code r = 200"
  shows "to_inline_data E (Inr r) d =
     (case store_body (content r) d of
        Inl e \<Rightarrow> Raised e d
      | Inr d1 \<Rightarrow>
          (case backfill_filename (after_signature E r d1) of
             Inl e \<Rightarrow> Raised e (after_signature E r d1)
           | Inr d5 \<Rightarrow> final_video_check (d5(''url'' := None))))"
  using ext st
  by (simp add: to_inline_data_def sign_bytes_eq Let_def after_signature_def
      cong: sum.case_cong)

text \<open>The steps a returning call on an external dialog has gone through.\<close>

lemma to_inline_data_returned:
  assumes ext: "is_external_data d = Inr True"
    and ret: "to_inline_data E resp d = Returned d'"
  shows "\<exists>r d1 d5. resp = Inr r \<and> status_code r = 200
           \<and> store_body (content r) d = Inr d1
           \<and> backfill_filename (after_signature E r d1) = Inr d5
           \<and> d' = d5(''url'' := None)"
proof -
  from ext ret obtain r where r: "resp = Inr r"
    by (cases resp) (auto simp: to_inline_data_def)
  from ext ret r have st: "status_code r = 200"
    by (auto simp: to_inline_data_def split: if_splits)
  note unfold = to_inline_data_200 [OF ext st, of E]
  from ret r unfold obtain d1 where d1: "store_body (content r) d = Inr d1"
    by (cases "store_body (content r) d") auto
  from ret r unfold d1 obtain d5 where d5: "backfill_filename (after_signature E r d1) = Inr d5"
    by (cases "backfill_filename (after_signature E r d1)") auto
  from ret r unfold d1 d5 have "final_video_check (d5(''url'' := None)) = Returned d'"
    by simp
  with final_video_check_cases [of "d5(''url'' := None)"] have "d' = d5(''url'' := None)"
    by auto
  with r st d1 d5 show ?thesis
    by blast
qed

text \<open>
  C2, as amended. For every fragment in EXTERNAL state (the call \<open>is_external_data()\<close>
  returns \<open>True\<close>) and every response to the GET request, \<open>to_inline_data\<close> raises the
  fetch error (\<open>Exception("Failed to fetch external data: <status>")\<close>) if and only if the
  status is not 200; when it raises it, the fragment is left exactly as it was; and when
  \<open>requests.get\<close> itself raises, that exception propagates and the fragment is unchanged
  too.
\<close>

theorem to_inline_data_fetch_error:
  assumes ext: "is_external_data d = Inr True"
  shows "((\<exists>m d'. to_inline_data E (Inr r) d = Raised (PyException m) d') \<longleftrightarrow> status_code r \<noteq> 200)
       \<and> (status_code r \<noteq> 200 \<longrightarrow>
            to_inline_data E (Inr r) d
              = Raised (PyException (ustr ''Failed to fetch external data: ''
                                       @ py_str_int (status_code r))) d)
       \<and> to_inline_data E (Inl e) d = Raised (RequestError e) d"
proof -
  have ok: "to_inline_data E (Inr r) d \<noteq> Raised (PyException m) d'" if st: "status_code r = 200" for m d'
  proof (cases "store_body (content r) d")
    case (Inl e)
    with store_body_error [OF Inl] to_inline_data_200 [OF ext st, of E] show ?thesis
      by simp
  next
    case d1: (Inr d1)
    show ?thesis
    proof (cases "backfill_filename (after_signature E r d1)")
      case (Inl e)
      with backfill_filename_error [OF Inl] d1 to_inline_data_200 [OF ext st, of E] show ?thesis
        by simp
    next
      case (Inr d5)
      with d1 to_inline_data_200 [OF ext st, of E] final_video_check_cases [of "d5(''url'' := None)"]
      show ?thesis
        by auto
    qed
  qed
  have bad: "to_inline_data E (Inr r) d
              = Raised (PyException (ustr ''Failed to fetch external data: ''
                                       @ py_str_int (status_code r))) d" if "status_code r \<noteq> 200"
    using ext that by (simp add: to_inline_data_def)
  have req: "to_inline_data E (Inl e) d = Raised (RequestError e) d"
    using ext by (simp add: to_inline_data_def)
  show ?thesis
    using ok bad req by blast
qed

text \<open>A text fragment whose URL answers 404.\<close>

theorem to_inline_data_fetch_error_witness:
  "is_external_data example_external = Inr True
   \<and> status_code response_not_found \<noteq> 200
   \<and> to_inline_data example_env (Inr response_not_found) example_external
       = Raised (PyException (ustr ''Failed to fetch external data: 404'')) example_external"
proof -
  have ext: "is_external_data example_external = Inr True"
    by (simp add: is_external_data_True hasattr_def example_external_def)
  have st: "status_code response_not_found \<noteq> 200"
    by (simp add: response_not_found_def)
  have msg: "py_str_int (status_code response_not_found) = ustr ''404''"
    by (simp add: response_not_found_def py_str_int_def ustr_def)
  from to_inline_data_fetch_error [OF ext, of example_env response_not_found]
  show ?thesis
    using ext st msg by (simp add: ustr_def)
qed

text \<open>
  C2 as stated fails: the code tests \<open>response.status_code == 200\<close>, so a success status
  other than 200, such as 204 No Content, raises the fetch error.
\<close>

theorem to_inline_data_204_counterexample:
  "is_external_data example_external = Inr True
   \<and> is_2xx (status_code response_no_content)
   \<and> to_inline_data example_env (Inr response_no_content) example_external
       = Raised (PyException (ustr ''Failed to fetch external data: 204'')) example_external"
  by (simp add: is_external_data_def method_call_def hasattr_def example_external_def is_2xx_def
      response_no_content_def to_inline_data_def py_str_int_def ustr_def)

text \<open>
  C6. On a fragment in EXTERNAL state (the call \<open>is_external_data()\<close> returns \<open>True\<close>):
  when \<open>to_inline_data\<close> returns, the GET request returned status 200 and the fragment
  has \<open>alg\<close> \<open>sha256\<close>, as \<open>signature\<close> the URL-safe base64 text of the SHA-256 digest of
  the raw bytes fetched, as \<open>body\<close> the base64 text of the raw bytes with \<open>encoding\<close>
  \<open>base64url\<close> when the fragment was audio or video, and otherwise the UTF-8 decoding of
  the raw bytes with \<open>encoding\<close> \<open>none\<close> when they decode, the base64 text with
  \<open>base64url\<close> when they do not; and it has no \<open>url\<close>: it is INLINE. And it does return
  whenever the status is 200, the calls \<open>is_video()\<close> and \<open>is_audio()\<close> of line 635 return,
  and the fragment has a filename or its \<open>url\<close> is a string: audio or video, decodable
  or not.
\<close>

theorem to_inline_data_success:
  assumes ext: "is_external_data d = Inr True"
  shows "(to_inline_data E resp d = Returned d' \<longrightarrow>
            (\<exists>r m. resp = Inr r \<and> status_code r = 200 \<and> is_media d = Inr m
               \<and> d' ''alg'' = Some (VStr (ustr ''sha256''))
               \<and> d' ''signature'' = Some (VStr (signature_of E (content r)))
               \<and> (if m
                   then d' ''body'' = Some (VStr (map of_char (urlsafe_b64encode (content r))))
                      \<and> d' ''encoding'' = Some (VStr (ustr ''base64url''))
                   else (case utf8_decode (content r) of
                           Some s \<Rightarrow> d' ''body'' = Some (VStr s)
                                    \<and> d' ''encoding'' = Some (VStr (ustr ''none''))
                         | None \<Rightarrow>
                             d' ''body'' = Some (VStr (map of_char (urlsafe_b64encode (content r))))
                           \<and> d' ''encoding'' = Some (VStr (ustr ''base64url''))))
               \<and> d' ''url'' = None
               \<and> is_external_data d' = Inr False))
       \<and> (status_code r = 200 \<and> (\<exists>m. is_media d = Inr m)
            \<and> (hasattr d ''filename'' \<or> (\<exists>u. d ''url'' = Some (VStr u)))
          \<longrightarrow> (\<exists>d''. to_inline_data E (Inr r) d = Returned d''))"
proof -
  have A: "\<exists>r m. resp = Inr r \<and> status_code r = 200 \<and> is_media d = Inr m
               \<and> d' ''alg'' = Some (VStr (ustr ''sha256''))
               \<and> d' ''signature'' = Some (VStr (signature_of E (content r)))
               \<and> (if m
                   then d' ''body'' = Some (VStr (map of_char (urlsafe_b64encode (content r))))
                      \<and> d' ''encoding'' = Some (VStr (ustr ''base64url''))
                   else (case utf8_decode (content r) of
                           Some s \<Rightarrow> d' ''body'' = Some (VStr s)
                                    \<and> d' ''encoding'' = Some (VStr (ustr ''none''))
                         | None \<Rightarrow>
                             d' ''body'' = Some (VStr (map of_char (urlsafe_b64encode (content r))))
                           \<and> d' ''encoding'' = Some (VStr (ustr ''base64url''))))
               \<and> d' ''url'' = None
               \<and> is_external_data d' = Inr False"
    if ret: "to_inline_data E resp d = Returned d'"
  proof -
    from to_inline_data_returned [OF ext ret] obtain r d1 d5 where r: "resp = Inr r"
      and st: "status_code r = 200"
      and d1: "store_body (content r) d = Inr d1"
      and d5: "backfill_filename (after_signature E r d1) = Inr d5"
      and d': "d' = d5(''url'' := None)"
      by blast
    from store_body_cases [OF d1] obtain m where m: "is_media d = Inr m"
      and same: "\<And>k. k \<noteq> ''body'' \<Longrightarrow> k \<noteq> ''encoding'' \<Longrightarrow> d1 k = d k"
      and enc: "if m
            then d1 ''body'' = Some (VStr (map of_char (urlsafe_b64encode (content r))))
               \<and> d1 ''encoding'' = Some (VStr (ustr ''base64url''))
            else (case utf8_decode (content r) of
                    Some s \<Rightarrow> d1 ''body'' = Some (VStr s)
                             \<and> d1 ''encoding'' = Some (VStr (ustr ''none''))
                  | None \<Rightarrow> d1 ''body'' = Some (VStr (map of_char (urlsafe_b64encode (content r))))
                           \<and> d1 ''encoding'' = Some (VStr (ustr ''base64url'')))"
      by blast
    have alg: "d' ''alg'' = Some (VStr (ustr ''sha256''))"
      using backfill_filename_other [OF d5, of "''alg''"] by (simp add: d' after_signature_def)
    have sig: "d' ''signature'' = Some (VStr (signature_of E (content r)))"
      using backfill_filename_other [OF d5, of "''signature''"] by (simp add: d' after_signature_def)
    have body: "d' ''body'' = d1 ''body''"
      using backfill_filename_other [OF d5, of "''body''"]
      by (simp add: d' after_signature_def backfill_mimetype_other)
    have encoding: "d' ''encoding'' = d1 ''encoding''"
      using backfill_filename_other [OF d5, of "''encoding''"]
      by (simp add: d' after_signature_def backfill_mimetype_other)
    have url: "d' ''url'' = None"
      by (simp add: d')
    have "d' ''is_external_data'' = d ''is_external_data''"
      using backfill_filename_other [OF d5, of "''is_external_data''"]
      by (simp add: d' after_signature_def backfill_mimetype_other same)
    with ext url have inl: "is_external_data d' = Inr False"
      by (simp add: is_external_data_True is_external_data_False hasattr_def)
    show ?thesis
      using r st m alg sig url inl enc
      by (auto simp: body encoding split: option.splits)
  qed
  have B: "\<exists>d''. to_inline_data E (Inr r) d = Returned d''"
    if st: "status_code r = 200" and m: "is_media d = Inr m"
      and fn: "hasattr d ''filename'' \<or> (\<exists>u. d ''url'' = Some (VStr u))" for m
  proof -
    from store_body_total [OF m] obtain d1 where d1: "store_body (content r) d = Inr d1"
      by blast
    from store_body_cases [OF d1]
    have same: "\<And>k. k \<noteq> ''body'' \<Longrightarrow> k \<noteq> ''encoding'' \<Longrightarrow> d1 k = d k"
      by blast
    have "hasattr (after_signature E r d1) ''filename''
          \<or> (\<exists>u. after_signature E r d1 ''url'' = Some (VStr u))"
      using fn by (simp add: after_signature_def backfill_mimetype_other same hasattr_def)
    from backfill_filename_total [OF this] obtain d5 where
      d5: "backfill_filename (after_signature E r d1) = Inr d5"
      by blast
    from is_media_video [OF m] have "\<not> hasattr d ''is_video''"
      using is_video_hidden [of d] by blast
    moreover have "(d5(''url'' := None)) ''is_video'' = d ''is_video''"
      using backfill_filename_other [OF d5, of "''is_video''"]
      by (simp add: after_signature_def backfill_mimetype_other same)
    ultimately have "\<not> hasattr (d5(''url'' := None)) ''is_video''"
      by (simp add: hasattr_def)
    from final_video_check_visible [OF this] d1 d5 to_inline_data_200 [OF ext st, of E]
    show ?thesis
      by simp
  qed
  show ?thesis
    using A B by blast
qed

text \<open>
  The values of the three runs below: the text \<open>hello\<close>, the four bytes \<open>RIFF\<close> served for
  an audio fragment, and the two bytes FF FE, which are not UTF-8.
\<close>

lemma b64_riff: "urlsafe_b64encode ''RIFF'' = ''UklGRg==''"
  by (simp add: urlsafe_b64encode_def b64_digit_def b64_alphabet_def)

lemma b64_bom: "urlsafe_b64encode [CHR 0xFF, CHR 0xFE] = ''__4=''"
  by (simp add: urlsafe_b64encode_def b64_digit_def b64_alphabet_def)

lemma sig_hello:
  "signature_of example_env ''hello'' = ustr ''LPJNul-wow4m6DsqxbninhsWHlwfp0JecwQzYpOLmCQ=''"
  by (simp add: signature_of_def example_env_def hello_digest_def urlsafe_b64encode_def
      b64_digit_def b64_alphabet_def ustr_def)

lemma sig_riff:
  "signature_of example_env ''RIFF'' = ustr ''pA_z1ZAPt2mLjIZQQTR8tJ7M7cj5OUX4limtEEquzOQ=''"
  by (simp add: signature_of_def example_env_def riff_digest_def urlsafe_b64encode_def
      b64_digit_def b64_alphabet_def ustr_def)

lemma sig_bom:
  "signature_of example_env [CHR 0xFF, CHR 0xFE] = ustr ''s9UQ7wQnXKjmmOWzy7Ds45Se-SUvDNyDnp7jR0CaIgk=''"
  by (simp add: signature_of_def example_env_def bom_digest_def urlsafe_b64encode_def
      b64_digit_def b64_alphabet_def ustr_def)

lemma example_external_state:
  "is_external_data example_external = Inr True"
  "is_media example_external = Inr False"
  "\<exists>u. example_external ''url'' = Some (VStr u)"
  by (simp_all add: is_external_data_def is_media_def is_video_def is_audio_def method_call_def
      hasattr_def example_external_def ustr_def)

lemma example_audio_external_state:
  "is_external_data example_audio_external = Inr True"
  "is_media example_audio_external = Inr True"
  "\<exists>u. example_audio_external ''url'' = Some (VStr u)"
  by (simp_all add: is_external_data_def is_media_def is_video_def is_audio_def method_call_def
      hasattr_def example_audio_external_def ustr_def audio_mimetypes_def video_mimetypes_def)

text \<open>
  Three conversions: a text fragment whose URL serves \<open>hello\<close>, an audio fragment whose
  URL serves \<open>RIFF\<close>, and a text fragment whose URL serves bytes that are not UTF-8.
\<close>

theorem to_inline_data_success_witness:
  "is_external_data example_external = Inr True
   \<and> is_external_data example_audio_external = Inr True
   \<and> (\<exists>d'. to_inline_data example_env (Inr response_ok) example_external = Returned d'
          \<and> d' ''alg'' = Some (VStr (ustr ''sha256''))
          \<and> d' ''signature'' = Some (VStr (ustr ''LPJNul-wow4m6DsqxbninhsWHlwfp0JecwQzYpOLmCQ=''))
          \<and> d' ''body'' = Some (VStr (ustr ''hello''))
          \<and> d' ''encoding'' = Some (VStr (ustr ''none''))
          \<and> d' ''url'' = None)
   \<and> (\<exists>d'. to_inline_data example_env (Inr response_riff) example_audio_external = Returned d'
          \<and> d' ''alg'' = Some (VStr (ustr ''sha256''))
          \<and> d' ''signature'' = Some (VStr (ustr ''pA_z1ZAPt2mLjIZQQTR8tJ7M7cj5OUX4limtEEquzOQ=''))
          \<and> d' ''body'' = Some (VStr (ustr ''UklGRg==''))
          \<and> d' ''encoding'' = Some (VStr (ustr ''base64url''))
          \<and> d' ''url'' = None)
   \<and> (\<exists>d'. to_inline_data example_env (Inr response_undecodable) example_external = Returned d'
          \<and> d' ''alg'' = Some (VStr (ustr ''sha256''))
          \<and> d' ''signature'' = Some (VStr (ustr ''s9UQ7wQnXKjmmOWzy7Ds45Se-SUvDNyDnp7jR0CaIgk=''))
          \<and> d' ''body'' = Some (VStr (ustr ''__4=''))
          \<and> d' ''encoding'' = Some (VStr (ustr ''base64url''))
          \<and> d' ''url'' = None)"
proof -
  have plain: "\<exists>d'. to_inline_data example_env (Inr response_ok) example_external = Returned d'
          \<and> d' ''alg'' = Some (VStr (ustr ''sha256''))
          \<and> d' ''signature'' = Some (VStr (ustr ''LPJNul-wow4m6DsqxbninhsWHlwfp0JecwQzYpOLmCQ=''))
          \<and> d' ''body'' = Some (VStr (ustr ''hello''))
          \<and> d' ''encoding'' = Some (VStr (ustr ''none''))
          \<and> d' ''url'' = None"
  proof -
    have st: "status_code response_ok = 200" and c: "content response_ok = ''hello''"
      by (simp_all add: response_ok_def)
    from to_inline_data_success [OF example_external_state(1), of example_env _ _ response_ok]
      st example_external_state(2,3)
    obtain d' where ret: "to_inline_data example_env (Inr response_ok) example_external = Returned d'"
      by blast
    from to_inline_data_success [OF example_external_state(1), of example_env "Inr response_ok" d' response_ok]
      ret example_external_state(2) c sig_hello
    show ?thesis
      by (auto simp: ustr_def)
  qed
  have audio: "\<exists>d'. to_inline_data example_env (Inr response_riff) example_audio_external = Returned d'
          \<and> d' ''alg'' = Some (VStr (ustr ''sha256''))
          \<and> d' ''signature'' = Some (VStr (ustr ''pA_z1ZAPt2mLjIZQQTR8tJ7M7cj5OUX4limtEEquzOQ=''))
          \<and> d' ''body'' = Some (VStr (ustr ''UklGRg==''))
          \<and> d' ''encoding'' = Some (VStr (ustr ''base64url''))
          \<and> d' ''url'' = None"
  proof -
    have st: "status_code response_riff = 200" and c: "content response_riff = ''RIFF''"
      by (simp_all add: response_riff_def)
    from to_inline_data_success [OF example_audio_external_state(1), of example_env _ _ response_riff]
      st example_audio_external_state(2,3)
    obtain d' where ret: "to_inline_data example_env (Inr response_riff) example_audio_external = Returned d'"
      by blast
    from to_inline_data_success [OF example_audio_external_state(1), of example_env "Inr response_riff" d' response_riff]
      ret example_audio_external_state(2) c b64_riff sig_riff
    show ?thesis
      by (auto simp: ustr_def)
  qed
  have fallback: "\<exists>d'. to_inline_data example_env (Inr response_undecodable) example_external = Returned d'
          \<and> d' ''alg'' = Some (VStr (ustr ''sha256''))
          \<and> d' ''signature'' = Some (VStr (ustr ''s9UQ7wQnXKjmmOWzy7Ds45Se-SUvDNyDnp7jR0CaIgk=''))
          \<and> d' ''body'' = Some (VStr (ustr ''__4=''))
          \<and> d' ''encoding'' = Some (VStr (ustr ''base64url''))
          \<and> d' ''url'' = None"
  proof -
    have st: "status_code response_undecodable = 200"
      and c: "content response_undecodable = [CHR 0xFF, CHR 0xFE]"
      by (simp_all add: response_undecodable_def)
    have dec: "utf8_decode [CHR 0xFF, CHR 0xFE] = None"
      by (simp add: is_cont_def)
    from to_inline_data_success [OF example_external_state(1), of example_env _ _ response_undecodable]
      st example_external_state(2,3)
    obtain d' where ret: "to_inline_data example_env (Inr response_undecodable) example_external = Returned d'"
      by blast
    from to_inline_data_success [OF example_external_state(1), of example_env "Inr response_undecodable" d' response_undecodable]
      ret example_external_state(2) c b64_bom sig_bom
    show ?thesis
      by (auto simp: ustr_def dec)
  qed
  from example_external_state(1) example_audio_external_state(1) plain audio fallback
  show ?thesis
    by blast
qed

text \<open>
  C7. On a fragment that is already INLINE (the call \<open>is_inline_data()\<close> returns \<open>True\<close>),
  \<open>to_inline_data\<close> returns at once and changes no attribute, whatever the network would
  answer; a second call leaves the fragment as the first call did.
\<close>

theorem to_inline_data_idempotent:
  assumes "is_inline_data d = Inr True"
  shows "to_inline_data E resp d = Returned d
       \<and> to_inline_data E resp' (final_state (to_inline_data E resp d)) = to_inline_data E resp d"
  using is_inline_data_True [OF assms] by (simp add: to_inline_data_def)

text \<open>An inline fragment, converted twice.\<close>

theorem to_inline_data_idempotent_witness:
  "is_inline_data example_inline = Inr True
   \<and> to_inline_data example_env (Inr response_ok) example_inline = Returned example_inline
   \<and> to_inline_data example_env (Inr response_not_found)
        (final_state (to_inline_data example_env (Inr response_ok) example_inline))
       = to_inline_data example_env (Inr response_ok) example_inline"
proof -
  have inl: "is_inline_data example_inline = Inr True"
    by (simp add: is_inline_data_def is_external_data_def method_call_def hasattr_def
        example_inline_def)
  from to_inline_data_idempotent [OF inl, of example_env "Inr response_ok" "Inr response_not_found"]
  show ?thesis
    using inl by blast
qed

text \<open>
  The same holds after a conversion: whatever the fragment was, once a call has returned,
  a further call changes nothing.
\<close>

lemma to_inline_data_twice:
  assumes "to_inline_data E resp d = Returned d'"
  shows "to_inline_data E resp' d' = Returned d'"
proof (cases "is_external_data d")
  case (Inl e)
  with assms show ?thesis
    by (simp add: to_inline_data_def)
next
  case (Inr ext)
  show ?thesis
  proof (cases ext)
    case True
    with Inr have ext: "is_external_data d = Inr True"
      by simp
    from to_inline_data_returned [OF ext assms] obtain r d1 d5 where
      d1: "store_body (content r) d = Inr d1"
      and d5: "backfill_filename (after_signature E r d1) = Inr d5"
      and d': "d' = d5(''url'' := None)"
      by blast
    from store_body_cases [OF d1]
    have same: "\<And>k. k \<noteq> ''body'' \<Longrightarrow> k \<noteq> ''encoding'' \<Longrightarrow> d1 k = d k"
      by blast
    have "d' ''is_external_data'' = d ''is_external_data''"
      using backfill_filename_other [OF d5, of "''is_external_data''"]
      by (simp add: d' after_signature_def backfill_mimetype_other same)
    moreover have "d' ''url'' = None"
      by (simp add: d')
    ultimately have "is_external_data d' = Inr False"
      using ext by (simp add: is_external_data_True is_external_data_False hasattr_def)
    then show ?thesis
      by (simp add: to_inline_data_def)
  next
    case False
    with Inr assms have "d' = d"
      by (simp add: to_inline_data_def)
    with False Inr show ?thesis
      by (simp add: to_inline_data_def)
  qed
qed

text \<open>
  On a fragment that has an attribute named \<open>is_external_data\<close>, the call of line 625
  raises TypeError: such a fragment is in neither state.
\<close>

lemma to_inline_data_hidden_method:
  "hasattr d ''is_external_data'' \<Longrightarrow> to_inline_data E resp d = Raised TypeError d"
  by (simp add: to_inline_data_def is_external_data_def method_call_def)

section \<open>Integrity check (C3, C10)\<close>




text \<open>A signature that is not valid base64, on an external fragment that has a body.\<close>

lemma is_external_data_changed_malformed_signature:
  "is_external_data_changed example_env
     (example_external(''body'' \<mapsto> VStr (ustr ''hello''), ''signature'' \<mapsto> VStr (ustr ''abc'')))
   = Inr True"
  by (simp add: is_external_data_changed_def is_external_data_def method_call_def hasattr_def
      example_external_def check_signature_def str_encode_def ustr_def utf8_encode_cp_def
      example_env_def char_of_eq_iff)

text \<open>
  The call of line 606 stands outside the \<open>try\<close>: on a fragment that has an attribute
  named \<open>is_external_data\<close> it raises TypeError, and the predicate lets it out. Such a
  fragment is in neither state.
\<close>

lemma is_external_data_changed_hidden_method:
  "hasattr d ''is_external_data'' \<Longrightarrow> is_external_data_changed E d = Inl TypeError"
  by (simp add: is_external_data_changed_def is_external_data_def method_call_def)

text \<open>
  C10. On every fragment that is not EXTERNAL (the call \<open>is_inline_data()\<close> returns
  \<open>True\<close>), \<open>is_external_data_changed\<close> returns \<open>False\<close>: the body of an inline fragment
  is not hashed, so a body that no longer matches its signature is not reported.
\<close>

theorem is_external_data_changed_inline:
  assumes "is_inline_data d = Inr True"
  shows "is_external_data_changed E d = Inr False"
  using is_inline_data_True [OF assms] by (simp add: is_external_data_changed_def)

text \<open>An inline fragment whose stored signature is that of \<open>hello\<close> and whose body is not.\<close>

theorem is_external_data_changed_inline_witness:
  "is_inline_data example_inline = Inr True
   \<and> \<not> stored_signature_verifies example_env example_inline
   \<and> is_external_data_changed example_env example_inline = Inr False"
proof -
  have inl: "is_inline_data example_inline = Inr True"
    by (simp add: is_inline_data_def is_external_data_def method_call_def hasattr_def
        example_inline_def)
  have tampered: "\<not> stored_signature_verifies example_env example_inline"
    by (simp add: stored_signature_verifies_def example_inline_def ustr_def utf8_encode_cp_def
        signature_of_def example_env_def tampered_digest_def urlsafe_b64encode_def
        b64_digit_def b64_alphabet_def char_of_eq_iff)
  from is_external_data_changed_inline [OF inl, of example_env]
  show ?thesis
    using inl tampered by simp
qed

section \<open>Construction (C8, C9)\<close>

lemma copy_or_empty_dict: "copy_or_empty (VDict m) = Inr (VDict m)"
  by (cases m) (simp_all add: copy_or_empty_def)

lemma reconcile_meta_set_named:
  "\<exists>d1. reconcile_meta (set_named a t) = Inr d1
        \<and> d1 ''meta'' = Some (VDict (meta_after_init a))
        \<and> d1 ''metadata'' = Some (VDict (metadata_after_init a))
        \<and> (\<forall>k. k \<noteq> ''meta'' \<and> k \<noteq> ''metadata'' \<longrightarrow> d1 k = set_named a t k)"
  by (cases "arg_meta a"; cases "arg_metadata a")
     (simp_all add: reconcile_meta_def set_named_def copy_or_empty_dict
        meta_after_init_def metadata_after_init_def)

lemma set_kwargs_named: "k \<in> set named_params \<Longrightarrow> set_kwargs a d k = d k"
  by (simp add: set_kwargs_def)

lemma named_params_mem:
  "''type'' \<in> set named_params" "''disposition'' \<in> set named_params"
  "''filename'' \<in> set named_params" "''mimetype'' \<in> set named_params"
  "''meta'' \<in> set named_params" "''metadata'' \<in> set named_params"
  by (simp_all add: named_params_def)

lemma init_video_mimetype_total:
  "d ''filename'' = map_option VStr f \<Longrightarrow> \<exists>mt. init_video_mimetype E d = Inr mt"
  by (cases f) (simp_all add: init_video_mimetype_def Let_def)


lemma VALID_TYPES_mem:
  "ustr ''text'' \<in> set VALID_TYPES" "ustr ''incomplete'' \<in> set VALID_TYPES"
  "ustr ''video'' \<in> set VALID_TYPES"
  by (simp_all add: VALID_TYPES_def)


text \<open>What construction does once the type is valid and the start time converts.\<close>

lemma Dialog_init_steps:
  assumes ty: "arg_type a \<in> set VALID_TYPES"
    and st: "convert_start E (arg_start a) = Inr t"
  shows "\<exists>d2 mt.
           d2 ''type'' = Some (VStr (arg_type a))
         \<and> d2 ''disposition'' = map_option VStr (arg_disposition a)
         \<and> d2 ''filename'' = map_option VStr (arg_filename a)
         \<and> d2 ''mimetype'' = map_option VStr (arg_mimetype a)
         \<and> d2 ''meta'' = Some (VDict (meta_after_init a))
         \<and> d2 ''metadata'' = Some (VDict (metadata_after_init a))
         \<and> (\<forall>k. k \<notin> set named_params \<and> k \<noteq> ''self'' \<longrightarrow>
                d2 k = (case arg_other a k of
                          Some v \<Rightarrow> if v = VNone then None else Some v
                        | None \<Rightarrow> None))
         \<and> init_video_mimetype E d2 = Inr mt
         \<and> Dialog_init E a =
             (if arg_type a = ustr ''incomplete'' \<and> arg_disposition a = None
              then Inl (ValueError disposition_message)
              else if arg_type a = ustr ''video'' \<and> arg_mimetype a = None
              then Inr (d2(''mimetype'' \<mapsto> VStr mt))
              else Inr d2)"
proof -
  obtain d1 where d1: "reconcile_meta (set_named a t) = Inr d1"
    and meta1: "d1 ''meta'' = Some (VDict (meta_after_init a))"
    and metadata1: "d1 ''metadata'' = Some (VDict (metadata_after_init a))"
    and same: "\<And>k. k \<noteq> ''meta'' \<Longrightarrow> k \<noteq> ''metadata'' \<Longrightarrow> d1 k = set_named a t k"
    using reconcile_meta_set_named [of a t] by blast
  define d2 where "d2 = set_kwargs a d1"
  have ty2: "d2 ''type'' = Some (VStr (arg_type a))"
    by (simp add: d2_def set_kwargs_named named_params_mem same set_named_def)
  have disp2: "d2 ''disposition'' = map_option VStr (arg_disposition a)"
    by (simp add: d2_def set_kwargs_named named_params_mem same set_named_def)
  have fn2: "d2 ''filename'' = map_option VStr (arg_filename a)"
    by (simp add: d2_def set_kwargs_named named_params_mem same set_named_def)
  have mt2: "d2 ''mimetype'' = map_option VStr (arg_mimetype a)"
    by (simp add: d2_def set_kwargs_named named_params_mem same set_named_def)
  have meta2: "d2 ''meta'' = Some (VDict (meta_after_init a))"
    by (simp add: d2_def set_kwargs_named named_params_mem meta1)
  have metadata2: "d2 ''metadata'' = Some (VDict (metadata_after_init a))"
    by (simp add: d2_def set_kwargs_named named_params_mem metadata1)
  have kw2: "d2 k = (case arg_other a k of
                       Some v \<Rightarrow> if v = VNone then None else Some v
                     | None \<Rightarrow> None)"
    if "k \<notin> set named_params" "k \<noteq> ''self''" for k
  proof -
    from that(1) have ne: "k \<noteq> ''type''" "k \<noteq> ''start''" "k \<noteq> ''mimetype''"
      "k \<noteq> ''filename''" "k \<noteq> ''disposition''" "k \<noteq> ''meta''" "k \<noteq> ''metadata''"
      by (auto simp: named_params_def)
    from ne(6,7) have "d1 k = set_named a t k"
      by (rule same)
    with ne that(1) have "d1 k = None"
      by (simp add: set_named_def)
    with that show ?thesis
      by (simp add: d2_def set_kwargs_def split: option.splits)
  qed
  obtain mt where mt: "init_video_mimetype E d2 = Inr mt"
    using init_video_mimetype_total [of d2 "arg_filename a" E] fn2 by blast
  have hd: "hasattr d2 ''disposition'' \<longleftrightarrow> arg_disposition a \<noteq> None"
    by (simp add: hasattr_def disp2)
  have hm: "hasattr d2 ''mimetype'' \<longleftrightarrow> arg_mimetype a \<noteq> None"
    by (simp add: hasattr_def mt2)
  have "Dialog_init E a =
        (if arg_type a = ustr ''incomplete'' \<and> arg_disposition a = None
         then Inl (ValueError disposition_message)
         else if arg_type a = ustr ''video'' \<and> arg_mimetype a = None
         then Inr (d2(''mimetype'' \<mapsto> VStr mt))
         else Inr d2)"
    using ty st d1 mt hd hm by (auto simp: Dialog_init_def Let_def d2_def)
  with ty2 disp2 fn2 mt2 meta2 metadata2 kw2 mt show ?thesis
    by blast
qed







text \<open>
  A keyword argument that has the name of a method: the constructor stores it, and the
  calls of lines 606 and 625 then raise TypeError.
\<close>

lemma Dialog_init_hidden_method:
  "\<exists>d. Dialog_init example_env hidden_method_args = Inr d
      \<and> d ''is_external_data'' = Some (VBool False)
      \<and> is_external_data d = Inl TypeError
      \<and> is_inline_data d = Inl TypeError
      \<and> to_inline_data example_env resp d = Raised TypeError d
      \<and> is_external_data_changed example_env d = Inl TypeError"
proof -
  have ty: "arg_type hidden_method_args \<in> set VALID_TYPES"
    by (simp add: hidden_method_args_def VALID_TYPES_mem)
  have st: "convert_start example_env (arg_start hidden_method_args)
              = Inr (ustr ''2024-01-01T00:00:00+00:00'')"
    by (simp add: hidden_method_args_def convert_start_def example_env_def)
  have nk: "''is_external_data'' \<notin> set named_params" "''is_inline_data'' \<notin> set named_params"
    by (simp_all add: named_params_def)
  have nt: "arg_type hidden_method_args \<noteq> ustr ''incomplete''"
    "arg_type hidden_method_args \<noteq> ustr ''video''"
    by (simp_all add: hidden_method_args_def ustr_def)
  from Dialog_init_steps [OF ty st] obtain d2 mt where
    kw: "\<forall>k. k \<notin> set named_params \<and> k \<noteq> ''self'' \<longrightarrow>
           d2 k = (case arg_other hidden_method_args k of
                     Some v \<Rightarrow> if v = VNone then None else Some v
                   | None \<Rightarrow> None)"
    and init': "Dialog_init example_env hidden_method_args =
             (if arg_type hidden_method_args = ustr ''incomplete''
                  \<and> arg_disposition hidden_method_args = None
              then Inl (ValueError disposition_message)
              else if arg_type hidden_method_args = ustr ''video''
                  \<and> arg_mimetype hidden_method_args = None
              then Inr (d2(''mimetype'' \<mapsto> VStr mt))
              else Inr d2)"
    by blast
  from init' nt have init: "Dialog_init example_env hidden_method_args = Inr d2"
    by simp
  from kw nk have hid: "d2 ''is_external_data'' = Some (VBool False)"
    and vis: "d2 ''is_inline_data'' = None"
    by (simp_all add: hidden_method_args_def)
  have ext: "is_external_data d2 = Inl TypeError"
    using hid by (simp add: is_external_data_def method_call_def hasattr_def)
  have inl: "is_inline_data d2 = Inl TypeError"
    using ext vis by (simp add: is_inline_data_def method_call_def hasattr_def)
  have conv: "to_inline_data example_env resp d2 = Raised TypeError d2"
    using ext by (simp add: to_inline_data_def)
  have chg: "is_external_data_changed example_env d2 = Inl TypeError"
    using ext by (simp add: is_external_data_changed_def)
  from init hid ext inl conv chg show ?thesis
    by blast
qed

section \<open>Mimetype inference (C5)\<close>









section \<open>The mirrored maps (C4)\<close>
















text \<open>
  The write of lines 314-320 goes to \<open>metadata\<close> alone: after \<open>add_external_data\<close> on a
  video dialog whose HEAD response has a Content-Length, the two maps differ.
\<close>

lemma add_external_data_content_length_not_mirrored:
  "meta_mirrored example_video
   \<and> (\<exists>d'. add_external_data example_env (Inr response_video) (ustr ''https://x/clip.mov'')
              VNone VNone example_video = Returned d'
          \<and> d' ''meta'' = Some (VDict [])
          \<and> d' ''metadata'' = Some (VDict [(''content_length'', VInt 1024)])
          \<and> \<not> meta_mirrored d')"
proof -
  have attrs: "example_video ''metadata'' = Some (VDict [])" "example_video ''meta'' = Some (VDict [])"
    "example_video ''type'' = Some (VStr (ustr ''video''))" "example_video ''is_video'' = None"
    by (simp_all add: example_video_def)
  have mir: "meta_mirrored example_video"
    by (simp add: meta_mirrored_def attrs dict_equal_def)
  have tr: "ustr ''1024'' \<noteq> []"
    by (simp add: ustr_def)
  have num: "int_of_str example_env (ustr ''1024'') = Some 1024"
    by (simp add: example_env_def)
  define d' where "d' = final_state (add_external_data example_env (Inr response_video)
      (ustr ''https://x/clip.mov'') VNone VNone example_video)"
  have ret: "add_external_data example_env (Inr response_video) (ustr ''https://x/clip.mov'')
              VNone VNone example_video = Returned d'"
    unfolding d'_def
    by (simp add: add_external_data_def Let_def response_video_def is_video_def method_call_def
        hasattr_def attrs tr num header_value_def)
  have meta: "d' ''meta'' = Some (VDict [])"
    unfolding d'_def
    by (simp add: add_external_data_def Let_def response_video_def is_video_def method_call_def
        hasattr_def attrs tr num header_value_def)
  have metadata: "d' ''metadata'' = Some (VDict [(''content_length'', VInt 1024)])"
    unfolding d'_def
    by (simp add: add_external_data_def Let_def response_video_def is_video_def method_call_def
        hasattr_def attrs tr num header_value_def)
  have "\<not> meta_mirrored d'"
    by (simp add: meta_mirrored_def meta metadata dict_equal_def)
  with mir ret meta metadata show ?thesis
    by blast
qed

end
